theory Spec2Isabelle
  imports Main "HOL-Library.Sublist"
begin

section \<open>The contact book of HW_7_Bot.py\<close>

text \<open>
  The program keeps an address book: a dictionary from names to records, each record
  holding a name, a list of phones and an optional birthday. The model follows the
  source class by class. A Python exception is a value of type \<open>error\<close>; a method that
  mutates its object returns the object after the call, also when it raises, since
  what was assigned before the exception stays assigned.

  Python's \<open>str\<close> is a sequence of code points. A \<open>char\<close> of this model stands for the
  code point of the same number, so a \<open>string\<close> is a Python string whose code points
  are all below 256, and \<open>length\<close> counts what \<open>len\<close> counts.
\<close>

datatype error =
    ValueError string
  | KeyError string
  | AttributeError
  | UnboundLocalError
  | OverflowError

subsection \<open>Character classes\<close>

text \<open>
  \<open>str.isdigit\<close> holds of a string that is not empty and whose characters all have the
  Unicode property Numeric_Type=Digit or Numeric_Type=Decimal. Below code point 256
  these are the ASCII digits and the superscripts U+00B2, U+00B3 and U+00B9. The
  decimal digits proper (what \<open>\d\<close> of a regular expression and \<open>str.isdecimal\<close>
  accept) are, below 256, the ASCII digits only.
\<close>

definition isdecimal_char :: "char \<Rightarrow> bool" where
  "isdecimal_char c = (c \<in> set ''0123456789'')"

definition isdigit_char :: "char \<Rightarrow> bool" where
  "isdigit_char c = (isdecimal_char c \<or> c \<in> set [CHR 0xB2, CHR 0xB3, CHR 0xB9])"

definition isdigit :: "string \<Rightarrow> bool" where
  "isdigit s = (s \<noteq> [] \<and> list_all isdigit_char s)"

subsection \<open>Fields\<close>

text \<open>
  \<open>Field\<close> stores a value and prints it; \<open>Name\<close> adds nothing. \<open>Phone\<close> routes every
  assignment to \<open>value\<close> through a setter that raises unless the string has ten
  characters and \<open>isdigit\<close> holds, so \<open>Phone.__init__\<close> raises exactly when the
  setter does.
\<close>

datatype Name = Name (name_value: string)

datatype Phone = PhoneObj (phone_value: string)

definition Phone_init :: "string \<Rightarrow> error + Phone" where
  "Phone_init v =
     (if length v = 10 \<and> isdigit v then Inr (PhoneObj v)
      else Inl (ValueError ''Invalid phone number''))"

text \<open>
  \<open>Birthday.__init__\<close> parses the string, stores the parsed date in \<open>value\<close> and then
  calls \<open>Field.__init__\<close>, which overwrites \<open>value\<close> with the string itself: a
  birthday holds the text it was built from.
\<close>

datatype Birthday = BirthdayObj (birthday_value: string)

subsection \<open>Records\<close>

record Record =
  name :: Name
  phones :: "Phone list"
  birthday :: "Birthday option"

definition Record_init :: "string \<Rightarrow> Record" where
  "Record_init n = \<lparr>name = Name n, phones = [], birthday = None\<rparr>"

definition add_phone :: "string \<Rightarrow> Record \<Rightarrow> (error + unit) \<times> Record" where
  "add_phone phone_number r =
     (case Phone_init phone_number of
        Inl e \<Rightarrow> (Inl e, r)
      | Inr p \<Rightarrow> (Inr (), r\<lparr>phones := phones r @ [p]\<rparr>))"

definition remove_phone :: "string \<Rightarrow> Record \<Rightarrow> Record" where
  "remove_phone phone_number r =
     r\<lparr>phones := filter (\<lambda>p. phone_value p \<noteq> phone_number) (phones r)\<rparr>"

text \<open>
  The loop of \<open>edit_phone\<close> visits every index and has no \<open>break\<close>. It returns the
  exception raised by \<open>Phone(new_phone)\<close>, if any, and the list as it stands then.
\<close>

fun edit_loop :: "string \<Rightarrow> string \<Rightarrow> Phone list \<Rightarrow> error option \<times> Phone list" where
  "edit_loop old_phone new_phone [] = (None, [])"
| "edit_loop old_phone new_phone (phone # rest) =
     (if phone_value phone = old_phone then
        (case Phone_init new_phone of
           Inl e \<Rightarrow> (Some e, phone # rest)
         | Inr q \<Rightarrow>
            (case edit_loop old_phone new_phone rest of (x, rest') \<Rightarrow> (x, q # rest')))
      else
        (case edit_loop old_phone new_phone rest of (x, rest') \<Rightarrow> (x, phone # rest')))"

definition not_found_message :: string where
  "not_found_message =
     ''Old phone number not found in the contact'' @ [CHR 0x27] @ ''s phones.''"

text \<open>
  After the loop the variable \<open>phone\<close> is still bound to the last element the loop
  read, which is the last phone of the list before the call; on an empty list it was
  never bound and reading it raises \<open>UnboundLocalError\<close>.
\<close>

definition edit_phone :: "string \<Rightarrow> string \<Rightarrow> Record \<Rightarrow> (error + unit) \<times> Record" where
  "edit_phone old_phone new_phone r =
     (case edit_loop old_phone new_phone (phones r) of
        (Some e, ps) \<Rightarrow> (Inl e, r\<lparr>phones := ps\<rparr>)
      | (None, ps) \<Rightarrow>
         (if phones r = [] then (Inl UnboundLocalError, r\<lparr>phones := ps\<rparr>)
          else if phone_value (last (phones r)) \<noteq> old_phone
            then (Inl (ValueError not_found_message), r\<lparr>phones := ps\<rparr>)
          else (Inr (), r\<lparr>phones := ps\<rparr>)))"

fun find_phone :: "string \<Rightarrow> Phone list \<Rightarrow> Phone option" where
  "find_phone phone [] = None"
| "find_phone phone (p # ps) = (if phone_value p = phone then Some p else find_phone phone ps)"

subsection \<open>Calendar dates\<close>

text \<open>
  \<open>datetime.date\<close> is the proleptic Gregorian calendar on the years 1 to 9999. The
  constructor raises \<open>ValueError\<close> outside these ranges; dates compare as
  (year, month, day); the difference of two dates is the difference of their
  ordinals; adding a \<open>timedelta\<close> goes through the ordinal and raises \<open>OverflowError\<close>
  when the sum leaves the calendar; Monday is weekday 0. The library's error texts are
  shortened: they name the cause without the offending value.
\<close>

record date =
  year :: int
  month :: int
  day :: int

definition is_leap :: "int \<Rightarrow> bool" where
  "is_leap y = (y mod 4 = 0 \<and> (y mod 100 \<noteq> 0 \<or> y mod 400 = 0))"

definition days_in_month :: "int \<Rightarrow> int \<Rightarrow> int" where
  "days_in_month y m =
     (if m = 2 then (if is_leap y then 29 else 28)
      else if m = 4 \<or> m = 6 \<or> m = 9 \<or> m = 11 then 30 else 31)"

definition days_before_year :: "int \<Rightarrow> int" where
  "days_before_year y = (y - 1) * 365 + (y - 1) div 4 - (y - 1) div 100 + (y - 1) div 400"

definition days_before_month_common :: "int \<Rightarrow> int" where
  "days_before_month_common m =
     (if m = 1 then 0 else if m = 2 then 31 else if m = 3 then 59 else if m = 4 then 90
      else if m = 5 then 120 else if m = 6 then 151 else if m = 7 then 181
      else if m = 8 then 212 else if m = 9 then 243 else if m = 10 then 273
      else if m = 11 then 304 else 334)"

definition days_before_month :: "int \<Rightarrow> int \<Rightarrow> int" where
  "days_before_month y m = days_before_month_common m + (if m > 2 \<and> is_leap y then 1 else 0)"

definition MAXYEAR :: int where
  "MAXYEAR = 9999"

definition MAXORDINAL :: int where
  "MAXORDINAL = 3652059"

definition mk_date :: "int \<Rightarrow> int \<Rightarrow> int \<Rightarrow> error + date" where
  "mk_date y m d =
     (if \<not> (1 \<le> y \<and> y \<le> MAXYEAR) then Inl (ValueError ''year is out of range'')
      else if \<not> (1 \<le> m \<and> m \<le> 12) then Inl (ValueError ''month must be in 1..12'')
      else if \<not> (1 \<le> d \<and> d \<le> days_in_month y m)
        then Inl (ValueError ''day is out of range for month'')
      else Inr \<lparr>year = y, month = m, day = d\<rparr>)"

definition toordinal :: "date \<Rightarrow> int" where
  "toordinal d = days_before_year (year d) + days_before_month (year d) (month d) + day d"

definition weekday :: "date \<Rightarrow> int" where
  "weekday d = (toordinal d + 6) mod 7"

definition date_less :: "date \<Rightarrow> date \<Rightarrow> bool" where
  "date_less a b =
     (year a < year b \<or> (year a = year b \<and>
        (month a < month b \<or> (month a = month b \<and> day a < day b))))"

text \<open>The library's conversion of an ordinal back to year, month and day.\<close>

definition fromordinal :: "int \<Rightarrow> date" where
  "fromordinal n0 =
     (let n = n0 - 1;
          n400 = n div 146097; n = n mod 146097;
          n100 = n div 36524; n = n mod 36524;
          n4 = n div 1461; n = n mod 1461;
          n1 = n div 365; n = n mod 365;
          y = n400 * 400 + 1 + n100 * 100 + n4 * 4 + n1
      in if n1 = 4 \<or> n100 = 4 then \<lparr>year = y - 1, month = 12, day = 31\<rparr>
         else
           (let leapyear = (n1 = 3 \<and> (n4 \<noteq> 24 \<or> n100 = 3));
                m = (n + 50) div 32;
                preceding = days_before_month_common m + (if m > 2 \<and> leapyear then 1 else 0)
            in if preceding > n then
                 (let m' = m - 1;
                      preceding' = preceding -
                        ((if m' = 2 then 28
                          else if m' = 4 \<or> m' = 6 \<or> m' = 9 \<or> m' = 11 then 30 else 31)
                         + (if m' = 2 \<and> leapyear then 1 else 0))
                  in \<lparr>year = y, month = m', day = n - preceding' + 1\<rparr>)
               else \<lparr>year = y, month = m, day = n - preceding + 1\<rparr>))"

definition date_add_days :: "date \<Rightarrow> int \<Rightarrow> error + date" where
  "date_add_days d k =
     (let ord = toordinal d + k
      in if 0 < ord \<and> ord \<le> MAXORDINAL then Inr (fromordinal ord) else Inl OverflowError)"

text \<open>
  \<open>strftime("%Y.%m.%d")\<close>: year, month and day in decimal, the month and the day on
  two digits. The year is written on four digits, as the library's documentation
  has it; all platforms agree from the year 1000 on.
\<close>

definition digit_char :: "int \<Rightarrow> char" where
  "digit_char k =
     (if k = 0 then CHR ''0'' else if k = 1 then CHR ''1'' else if k = 2 then CHR ''2''
      else if k = 3 then CHR ''3'' else if k = 4 then CHR ''4'' else if k = 5 then CHR ''5''
      else if k = 6 then CHR ''6'' else if k = 7 then CHR ''7'' else if k = 8 then CHR ''8''
      else CHR ''9'')"

definition pad2 :: "int \<Rightarrow> string" where
  "pad2 k = [digit_char (k div 10 mod 10), digit_char (k mod 10)]"

definition pad4 :: "int \<Rightarrow> string" where
  "pad4 k = [digit_char (k div 1000 mod 10), digit_char (k div 100 mod 10),
             digit_char (k div 10 mod 10), digit_char (k mod 10)]"

definition strftime_Ymd :: "date \<Rightarrow> string" where
  "strftime_Ymd d = pad4 (year d) @ ''.'' @ pad2 (month d) @ ''.'' @ pad2 (day d)"

subsection \<open>Parsing a birthday\<close>

text \<open>
  \<open>datetime.strptime(value, "%d.%m.%Y")\<close> compiles the format into the regular
  expression
  \<^verbatim>\<open>(?P<d>3[0-1]|[1-2]\d|0[1-9]|[1-9]| [1-9])\.(?P<m>1[0-2]|0[1-9]|[1-9])\.(?P<Y>\d\d\d\d)\<close>
  and matches it at the start of the string, trying alternatives from left to right and
  backtracking. It raises \<open>ValueError\<close> when nothing matches and when the match stops
  before the end of the string, converts the three groups with \<open>int\<close>, and builds
  the date, which raises \<open>ValueError\<close> for a year 0 or a day the month does not have.
\<close>

datatype regex =
    Cls string
  | Seq regex regex
  | Alt regex regex

text \<open>All the ways a regular expression matches a prefix, in the order a backtracking
  matcher finds them; each is given by the text left over.\<close>

fun rmatch :: "regex \<Rightarrow> string \<Rightarrow> string list" where
  "rmatch (Cls cs) s = (case s of [] \<Rightarrow> [] | c # r \<Rightarrow> if c \<in> set cs then [r] else [])"
| "rmatch (Seq a b) s = concat (map (rmatch b) (rmatch a s))"
| "rmatch (Alt a b) s = rmatch a s @ rmatch b s"

definition re_digit :: regex where
  "re_digit = Cls ''0123456789''"

definition re_1_9 :: regex where
  "re_1_9 = Cls ''123456789''"

definition re_d :: regex where
  "re_d = Alt (Seq (Cls ''3'') (Cls ''01''))
         (Alt (Seq (Cls ''12'') re_digit)
         (Alt (Seq (Cls ''0'') re_1_9)
         (Alt re_1_9
              (Seq (Cls '' '') re_1_9))))"

definition re_m :: regex where
  "re_m = Alt (Seq (Cls ''1'') (Cls ''012''))
         (Alt (Seq (Cls ''0'') re_1_9)
              re_1_9)"

definition re_Y :: regex where
  "re_Y = Seq re_digit (Seq re_digit (Seq re_digit re_digit))"

definition re_dot :: regex where
  "re_dot = Cls ''.''"

definition consumed :: "string \<Rightarrow> string \<Rightarrow> string" where
  "consumed s r = take (length s - length r) s"

text \<open>The matches of the whole pattern: the three groups and the text left over.\<close>

definition dmY_matches :: "string \<Rightarrow> (string \<times> string \<times> string \<times> string) list" where
  "dmY_matches s =
     concat (map (\<lambda>r1.
       concat (map (\<lambda>r2.
         concat (map (\<lambda>r3.
           concat (map (\<lambda>r4.
             map (\<lambda>r5. (consumed s r1, consumed r2 r3, consumed r4 r5, r5))
                 (rmatch re_Y r4))
           (rmatch re_dot r3)))
         (rmatch re_m r2)))
       (rmatch re_dot r1)))
     (rmatch re_d s))"

text \<open>\<open>int\<close> on a group of the pattern: blanks around the number are dropped, the rest
  are decimal digits.\<close>

definition digit_val :: "char \<Rightarrow> int" where
  "digit_val c = of_char c - 48"

definition py_int :: "string \<Rightarrow> int" where
  "py_int s = foldl (\<lambda>a c. 10 * a + digit_val c) 0 (filter (\<lambda>c. c \<noteq> CHR '' '') s)"

definition strptime_dmY :: "string \<Rightarrow> error + date" where
  "strptime_dmY s =
     (case dmY_matches s of
        [] \<Rightarrow> Inl (ValueError ''time data does not match format'')
      | (d, m, y, rest) # _ \<Rightarrow>
          if rest \<noteq> [] then Inl (ValueError ''unconverted data remains'')
          else mk_date (py_int y) (py_int m) (py_int d))"

definition date_format_message :: string where
  "date_format_message = ''Incorrect date format, please enter in the format: dd.mm.yyyy''"

definition Birthday_init :: "string \<Rightarrow> error + Birthday" where
  "Birthday_init v =
     (case strptime_dmY v of
        Inl (ValueError _) \<Rightarrow> Inl (ValueError date_format_message)
      | Inl e \<Rightarrow> Inl e
      | Inr _ \<Rightarrow> Inr (BirthdayObj v))"

definition add_birthday :: "string \<Rightarrow> Record \<Rightarrow> (error + unit) \<times> Record" where
  "add_birthday b r =
     (case Birthday_init b of
        Inl e \<Rightarrow> (Inl e, r)
      | Inr bd \<Rightarrow> (Inr (), r\<lparr>birthday := Some bd\<rparr>))"

subsection \<open>The address book\<close>

text \<open>
  \<open>AddressBook\<close> is a \<open>UserDict\<close>: its \<open>data\<close> is a dictionary, which keeps its keys in
  the order of their first insertion. It is modelled as an association list with
  that order. \<open>find_next_birthday\<close> also stores the date it read from the clock in the
  attribute \<open>today\<close>, which no book has before the first call.
\<close>

fun dict_set :: "'k \<Rightarrow> 'v \<Rightarrow> ('k \<times> 'v) list \<Rightarrow> ('k \<times> 'v) list" where
  "dict_set k v [] = [(k, v)]"
| "dict_set k v ((k', v') # kvs) =
     (if k' = k then (k, v) # kvs else (k', v') # dict_set k v kvs)"

definition dict_del :: "string \<Rightarrow> (string \<times> 'v) list \<Rightarrow> error + (string \<times> 'v) list" where
  "dict_del k kvs =
     (if k \<in> set (map fst kvs) then Inr (filter (\<lambda>kv. fst kv \<noteq> k) kvs)
      else Inl (KeyError k))"

record AddressBook =
  data :: "(string \<times> Record) list"
  today :: "date option"

definition empty_book :: AddressBook where
  "empty_book = \<lparr>data = [], today = None\<rparr>"

definition add_record :: "Record \<Rightarrow> AddressBook \<Rightarrow> AddressBook" where
  "add_record r book = book\<lparr>data := dict_set (name_value (name r)) r (data book)\<rparr>"

definition find_record :: "string \<Rightarrow> AddressBook \<Rightarrow> Record option" where
  "find_record n book = map_of (data book) n"

definition delete :: "string \<Rightarrow> AddressBook \<Rightarrow> error + AddressBook" where
  "delete n book =
     (case dict_del n (data book) of
        Inl e \<Rightarrow> Inl e
      | Inr kvs \<Rightarrow> Inr (book\<lparr>data := kvs\<rparr>))"

definition values_of :: "AddressBook \<Rightarrow> Record list" where
  "values_of book = map snd (data book)"

subsection \<open>Upcoming birthdays\<close>

record entry =
  entry_name :: string
  congratulation_date :: string

text \<open>
  One pass of the loop of \<open>find_next_birthday\<close> for the record \<open>user\<close>, with \<open>now\<close> the
  date the clock gave: the exception it raises, or the entry it appends, if any.
  Reading \<open>user.birthday.value\<close> of a record with no birthday raises
  \<open>AttributeError\<close>, since \<open>None\<close> has no attribute \<open>value\<close>.
\<close>

definition birthday_step :: "date \<Rightarrow> Record \<Rightarrow> error + entry option" where
  "birthday_step now user =
     (case birthday user of
        None \<Rightarrow> Inl AttributeError
      | Some b \<Rightarrow>
     (case strptime_dmY (birthday_value b) of
        Inl e \<Rightarrow> Inl e
      | Inr birthday_date \<Rightarrow>
     (case mk_date (year now) (month birthday_date) (day birthday_date) of
        Inl e \<Rightarrow> Inl e
      | Inr this_year \<Rightarrow>
     (case (if date_less this_year now
            then mk_date (year now + 1) (month birthday_date) (day birthday_date)
            else Inr this_year) of
        Inl e \<Rightarrow> Inl e
      | Inr birthday_this_year \<Rightarrow>
         (let days_until_birthday = toordinal birthday_this_year - toordinal now
          in if 0 \<le> days_until_birthday \<and> days_until_birthday \<le> 7 then
               (case (if weekday birthday_this_year \<ge> 5
                      then date_add_days now (7 - weekday now)
                      else Inr birthday_this_year) of
                  Inl e \<Rightarrow> Inl e
                | Inr congrats_date \<Rightarrow>
                    Inr (Some \<lparr>entry_name = name_value (name user),
                               congratulation_date = strftime_Ymd congrats_date\<rparr>))
             else Inr None)))))"

fun birthday_loop :: "date \<Rightarrow> Record list \<Rightarrow> entry list \<Rightarrow> error + entry list" where
  "birthday_loop now [] upcoming_birthdays = Inr upcoming_birthdays"
| "birthday_loop now (user # users) upcoming_birthdays =
     (case birthday_step now user of
        Inl e \<Rightarrow> Inl e
      | Inr None \<Rightarrow> birthday_loop now users upcoming_birthdays
      | Inr (Some b) \<Rightarrow> birthday_loop now users (upcoming_birthdays @ [b]))"

text \<open>
  \<open>find_next_birthday(self, weekday)\<close>: the argument \<open>weekday\<close> is never read. The date
  \<open>now\<close> is what \<open>datetime.today().date()\<close> returned during the call.
\<close>

definition find_next_birthday ::
    "'w \<Rightarrow> date \<Rightarrow> AddressBook \<Rightarrow> (error + entry list) \<times> AddressBook" where
  "find_next_birthday weekday_arg now book =
     (birthday_loop now (values_of book) [], book\<lparr>today := Some now\<rparr>)"

subsection \<open>Commands\<close>

text \<open>
  The decorator \<open>input_error\<close> turns a \<open>KeyError\<close> and a \<open>ValueError\<close> of a command into
  the text the command returns; every other exception leaves the command.
\<close>

definition input_error :: "(error + string) \<times> 'b \<Rightarrow> (error + string) \<times> 'b" where
  "input_error res =
     (case res of
        (Inl (KeyError _), book) \<Rightarrow> (Inr ''Contact not found.'', book)
      | (Inl (ValueError msg), book) \<Rightarrow> (Inr msg, book)
      | _ \<Rightarrow> res)"

text \<open>
  \<open>add_contact\<close> stores a new record in the book before it adds the phone, and the
  record in the book is the object \<open>add_phone\<close> then works on: what \<open>add_phone\<close> does to
  it is written back under the name.
\<close>

definition add_contact_body :: "string list \<Rightarrow> AddressBook \<Rightarrow> (error + string) \<times> AddressBook" where
  "add_contact_body args book =
     (case args of
        n # phone # _ \<Rightarrow>
          (case find_record n book of
             None \<Rightarrow>
               (let record = Record_init n;
                    book1 = add_record record book
                in case add_phone phone record of
                     (Inl e, record') \<Rightarrow>
                        (Inl e, book1\<lparr>data := dict_set n record' (data book1)\<rparr>)
                   | (Inr _, record') \<Rightarrow>
                        (Inr ''Contact added.'', book1\<lparr>data := dict_set n record' (data book1)\<rparr>))
           | Some record \<Rightarrow>
               (case add_phone phone record of
                  (Inl e, record') \<Rightarrow>
                     (Inl e, book\<lparr>data := dict_set n record' (data book)\<rparr>)
                | (Inr _, record') \<Rightarrow>
                     (Inr ''Contact updated.'', book\<lparr>data := dict_set n record' (data book)\<rparr>)))
      | _ \<Rightarrow> (Inr ''Insufficient arguments. Required: name and phone number.'', book))"

definition add_contact :: "string list \<Rightarrow> AddressBook \<Rightarrow> (error + string) \<times> AddressBook" where
  "add_contact args book = input_error (add_contact_body args book)"

fun join :: "string \<Rightarrow> string list \<Rightarrow> string" where
  "join sep [] = []"
| "join sep [x] = x"
| "join sep (x # y # ys) = x @ sep @ join sep (y # ys)"

definition birthday_line :: "entry \<Rightarrow> string" where
  "birthday_line b = entry_name b @ [CHR 0x27] @ ''s birthday is on '' @ congratulation_date b"

definition birthdays :: "string list \<Rightarrow> date \<Rightarrow> AddressBook \<Rightarrow> (error + string) \<times> AddressBook" where
  "birthdays args now book =
     input_error
       (case find_next_birthday (None :: unit option) now book of
          (Inl e, book') \<Rightarrow> (Inl e, book')
        | (Inr upcoming_birthdays, book') \<Rightarrow>
            (Inr (join [CHR 0x0A] (map birthday_line upcoming_birthdays)), book'))"

subsection \<open>Sequences of book operations\<close>

text \<open>
  A session applies \<open>add_record\<close> and \<open>delete\<close> to the book one after the other. A
  \<open>delete\<close> of an absent name raises \<open>KeyError\<close> and leaves the book as it was.
\<close>

datatype book_op = AddRecord Record | Delete string

definition apply_book_op :: "AddressBook \<Rightarrow> book_op \<Rightarrow> AddressBook" where
  "apply_book_op book op =
     (case op of
        AddRecord r \<Rightarrow> add_record r book
      | Delete n \<Rightarrow> (case delete n book of Inl _ \<Rightarrow> book | Inr book' \<Rightarrow> book'))"

definition run_ops :: "book_op list \<Rightarrow> AddressBook" where
  "run_ops ops = foldl apply_book_op empty_book ops"

subsection \<open>The specification's vocabulary\<close>









text \<open>The invariant of the book: keys are distinct, and each record sits under its name.\<close>

definition keyed_by_name :: "AddressBook \<Rightarrow> bool" where
  "keyed_by_name book =
     (distinct (map fst (data book))
      \<and> (\<forall>kv\<in>set (data book). name_value (name (snd kv)) = fst kv))"


section \<open>Properties\<close>

subsection \<open>Phones\<close>

lemma isdigit_iff: "isdigit s \<longleftrightarrow> s \<noteq> [] \<and> (\<forall>c\<in>set s. isdigit_char c)"
  by (simp add: isdigit_def list_all_iff)

lemma ascii_isdigit_char: "(of_char c :: nat) < 128 \<Longrightarrow> isdigit_char c = isdecimal_char c"
  by (auto simp: isdigit_char_def)

text \<open>
  Claim C5, as amended. A phone is built from \<open>raw\<close> exactly when \<open>raw\<close> has ten
  characters and each of them is a digit in the sense of \<open>str.isdigit\<close>: a decimal
  digit or, below code point 256, one of the superscripts U+00B2, U+00B3, U+00B9.
  Otherwise the constructor raises \<open>ValueError\<close> with the text \<open>Invalid phone number\<close>.
  On ASCII text the digits of \<open>str.isdigit\<close> are the decimal digits.
\<close>

theorem Phone_init_isdigit:
  "((\<exists>p. Phone_init raw = Inr p) \<longleftrightarrow> length raw = 10 \<and> (\<forall>c\<in>set raw. isdigit_char c))
   \<and> (Phone_init raw = Inr (PhoneObj raw)
        \<or> Phone_init raw = Inl (ValueError ''Invalid phone number''))
   \<and> ((\<forall>c\<in>set raw. (of_char c :: nat) < 128) \<longrightarrow>
        ((\<exists>p. Phone_init raw = Inr p) \<longleftrightarrow> length raw = 10 \<and> (\<forall>c\<in>set raw. isdecimal_char c)))"
proof -
  have ne: "length raw = 10 \<Longrightarrow> raw \<noteq> []" by auto
  have a: "(\<exists>p. Phone_init raw = Inr p) \<longleftrightarrow> length raw = 10 \<and> (\<forall>c\<in>set raw. isdigit_char c)"
    using ne by (auto simp: Phone_init_def isdigit_iff)
  have b: "Phone_init raw = Inr (PhoneObj raw)
        \<or> Phone_init raw = Inl (ValueError ''Invalid phone number'')"
    by (simp add: Phone_init_def)
  have c: "(\<forall>c\<in>set raw. (of_char c :: nat) < 128) \<longrightarrow>
        ((\<exists>p. Phone_init raw = Inr p) \<longleftrightarrow> length raw = 10 \<and> (\<forall>c\<in>set raw. isdecimal_char c))"
    using a by (auto simp: ascii_isdigit_char)
  from a b c show ?thesis by blast
qed

theorem Phone_init_isdigit_witness:
  "list_all (\<lambda>c. (of_char c :: nat) < 128) ''0501234567''
   \<and> Phone_init ''0501234567'' = Inr (PhoneObj ''0501234567'')
   \<and> list_all (\<lambda>c. (of_char c :: nat) < 128) ''05012x4567''
   \<and> Phone_init ''05012x4567'' = Inl (ValueError ''Invalid phone number'')"
  using Phone_init_isdigit [of "''0501234567''"] Phone_init_isdigit [of "''05012x4567''"]
  by (auto simp: isdecimal_char_def isdigit_char_def)

theorem Phone_init_superscript_counterexample:
  "Phone_init [CHR 0xB2, CHR 0xB2, CHR 0xB2, CHR 0xB2, CHR 0xB2,
               CHR 0xB2, CHR 0xB2, CHR 0xB2, CHR 0xB2, CHR 0xB2]
     = Inr (PhoneObj [CHR 0xB2, CHR 0xB2, CHR 0xB2, CHR 0xB2, CHR 0xB2,
                      CHR 0xB2, CHR 0xB2, CHR 0xB2, CHR 0xB2, CHR 0xB2])
   \<and> \<not> isdecimal_char (CHR 0xB2)"
  by (simp add: Phone_init_def isdigit_def isdigit_char_def isdecimal_char_def)

text \<open>
  Claim C7. \<open>remove_phone x\<close> keeps exactly the phones whose text differs from \<open>x\<close>, in
  their order, and touches nothing else; it changes nothing when no phone has the
  text \<open>x\<close>, and removing twice is removing once.
\<close>

theorem remove_phone_filter:
  "phones (remove_phone x r) = filter (\<lambda>p. phone_value p \<noteq> x) (phones r)
   \<and> subseq (phones (remove_phone x r)) (phones r)
   \<and> name (remove_phone x r) = name r \<and> birthday (remove_phone x r) = birthday r
   \<and> ((\<forall>p\<in>set (phones r). phone_value p \<noteq> x) \<longrightarrow> remove_phone x r = r)
   \<and> remove_phone x (remove_phone x r) = remove_phone x r"
proof -
  have "(\<forall>p\<in>set (phones r). phone_value p \<noteq> x)
      \<longrightarrow> filter (\<lambda>p. phone_value p \<noteq> x) (phones r) = phones r"
    by (simp add: filter_id_conv)
  then show ?thesis
    by (simp add: remove_phone_def)
qed

theorem remove_phone_filter_witness:
  "list_all (\<lambda>p. phone_value p \<noteq> ''2222222222'') [PhoneObj ''1111111111'']
   \<and> remove_phone ''2222222222''
        \<lparr>name = Name ''A'', phones = [PhoneObj ''1111111111''], birthday = None\<rparr>
      = \<lparr>name = Name ''A'', phones = [PhoneObj ''1111111111''], birthday = None\<rparr>
   \<and> phones (remove_phone ''1111111111''
        \<lparr>name = Name ''A'',
         phones = [PhoneObj ''1111111111'', PhoneObj ''3333333333'', PhoneObj ''1111111111''],
         birthday = None\<rparr>)
      = [PhoneObj ''3333333333'']"
  using remove_phone_filter [of "''2222222222''"
      "\<lparr>name = Name ''A'', phones = [PhoneObj ''1111111111''], birthday = None\<rparr>"]
    remove_phone_filter [of "''1111111111''"
      "\<lparr>name = Name ''A'',
        phones = [PhoneObj ''1111111111'', PhoneObj ''3333333333'', PhoneObj ''1111111111''],
        birthday = None\<rparr>"]
  by simp

lemma edit_loop_replaces_all:
  "Phone_init new_phone = Inr q \<Longrightarrow>
   edit_loop old_phone new_phone ps
     = (None, map (\<lambda>p. if phone_value p = old_phone then q else p) ps)"
  by (induction ps) simp_all

lemma edit_phone_replaces_all:
  assumes "Phone_init new_phone = Inr q" and "phones r \<noteq> []"
  shows "edit_phone old_phone new_phone r
     = (if phone_value (last (phones r)) \<noteq> old_phone
        then Inl (ValueError not_found_message) else Inr (),
        r\<lparr>phones := map (\<lambda>p. if phone_value p = old_phone then q else p) (phones r)\<rparr>)"
  using assms by (simp add: edit_phone_def edit_loop_replaces_all)

text \<open>
  Claim C1 fails on the code. With the phones 1111111111 and 2222222222, editing
  1111111111 into 3333333333 replaces the first phone and then raises the
  \<open>ValueError\<close> for a phone that was not found, because the test after the loop looks
  at the last phone only. With the phone 1111111111 stored twice, both are replaced.
  On a record without phones the call raises \<open>UnboundLocalError\<close>.
\<close>

theorem edit_phone_last_phone_decides:
  "edit_phone ''1111111111'' ''3333333333''
      \<lparr>name = Name ''A'', phones = [PhoneObj ''1111111111'', PhoneObj ''2222222222''],
       birthday = None\<rparr>
    = (Inl (ValueError not_found_message),
       \<lparr>name = Name ''A'', phones = [PhoneObj ''3333333333'', PhoneObj ''2222222222''],
        birthday = None\<rparr>)
   \<and> edit_phone ''1111111111'' ''3333333333''
      \<lparr>name = Name ''A'', phones = [PhoneObj ''1111111111'', PhoneObj ''1111111111''],
       birthday = None\<rparr>
    = (Inr (),
       \<lparr>name = Name ''A'', phones = [PhoneObj ''3333333333'', PhoneObj ''3333333333''],
        birthday = None\<rparr>)
   \<and> edit_phone ''1111111111'' ''3333333333''
      \<lparr>name = Name ''A'', phones = [], birthday = None\<rparr>
    = (Inl UnboundLocalError, \<lparr>name = Name ''A'', phones = [], birthday = None\<rparr>)"
  by code_simp

subsection \<open>Birthdays as text\<close>










































subsection \<open>The address book\<close>

lemma dict_set_keys: "fst ` set (dict_set k v kvs) = insert k (fst ` set kvs)"
proof (induction kvs)
  case Nil
  show ?case by simp
next
  case (Cons a kvs)
  obtain k' v' where a: "a = (k', v')" by (cases a)
  show ?case
  proof (cases "k' = k")
    case True
    with a show ?thesis by simp
  next
    case False
    with a Cons show ?thesis by (simp add: insert_commute)
  qed
qed

lemma dict_set_distinct: "distinct (map fst kvs) \<Longrightarrow> distinct (map fst (dict_set k v kvs))"
  by (induction kvs) (auto simp: dict_set_keys)

lemma dict_set_entries: "set (dict_set k v kvs) \<subseteq> insert (k, v) (set kvs)"
  by (induction kvs) (auto split: if_splits)

lemma map_of_dict_set: "map_of (dict_set k v kvs) = (map_of kvs)(k \<mapsto> v)"
  by (induction kvs) (auto simp: fun_eq_iff)

lemma dict_set_new: "k \<notin> fst ` set kvs \<Longrightarrow> dict_set k v kvs = kvs @ [(k, v)]"
  by (induction kvs) auto

lemma dict_set_same: "dict_set k v (dict_set k v kvs) = dict_set k v kvs"
  by (induction kvs) auto

lemma filter_key_dict_set:
  "distinct (map fst kvs) \<Longrightarrow> filter (\<lambda>kv. fst kv = k) (dict_set k v kvs) = [(k, v)]"
proof (induction kvs)
  case Nil
  then show ?case by simp
next
  case (Cons a kvs)
  obtain k' v' where a: "a = (k', v')" by (cases a)
  show ?case
  proof (cases "k' = k")
    case True
    with Cons.prems a have "k \<notin> fst ` set kvs" by auto
    then have "filter (\<lambda>kv. fst kv = k) kvs = []" by (auto simp: filter_empty_conv)
    with True a show ?thesis by simp
  next
    case False
    with Cons a show ?thesis by simp
  qed
qed

lemma keyed_by_name_empty: "keyed_by_name empty_book"
  by (simp add: keyed_by_name_def empty_book_def)

lemma keyed_by_name_add_record: "keyed_by_name book \<Longrightarrow> keyed_by_name (add_record r book)"
  unfolding keyed_by_name_def add_record_def
  using dict_set_entries [of "name_value (name r)" r "data book"]
  by (auto simp: dict_set_distinct)

lemma keyed_by_name_apply: "keyed_by_name book \<Longrightarrow> keyed_by_name (apply_book_op book op)"
proof (cases op)
  case (AddRecord r)
  assume "keyed_by_name book"
  with AddRecord show ?thesis by (simp add: apply_book_op_def keyed_by_name_add_record)
next
  case (Delete n)
  assume "keyed_by_name book"
  with Delete show ?thesis
    by (auto simp: apply_book_op_def delete_def dict_del_def keyed_by_name_def distinct_map_filter)
qed

lemma keyed_by_name_foldl:
  "keyed_by_name book \<Longrightarrow> keyed_by_name (foldl apply_book_op book ops)"
  by (induction ops arbitrary: book) (simp_all add: keyed_by_name_apply)

text \<open>
  Claim C8. In every book that a sequence of \<open>add_record\<close> and \<open>delete\<close> calls builds
  from the empty book, every record is stored under its own name. \<open>add_record\<close> stores
  the record under the record's name; after it the book has exactly one entry under
  that name, the record just added, and the entries under other names are as before.
\<close>

theorem run_ops_keyed_by_name:
  "(\<forall>kv\<in>set (data (run_ops ops)). name_value (name (snd kv)) = fst kv)
   \<and> find_record (name_value (name r)) (add_record r (run_ops ops)) = Some r
   \<and> filter (\<lambda>kv. fst kv = name_value (name r)) (data (add_record r (run_ops ops)))
       = [(name_value (name r), r)]
   \<and> (\<forall>n. n \<noteq> name_value (name r) \<longrightarrow>
         find_record n (add_record r (run_ops ops)) = find_record n (run_ops ops))"
proof -
  have k: "keyed_by_name (run_ops ops)"
    unfolding run_ops_def by (rule keyed_by_name_foldl [OF keyed_by_name_empty])
  then have a: "\<forall>kv\<in>set (data (run_ops ops)). name_value (name (snd kv)) = fst kv"
    by (simp add: keyed_by_name_def)
  have b: "find_record (name_value (name r)) (add_record r (run_ops ops)) = Some r"
    by (simp add: find_record_def add_record_def map_of_dict_set)
  have c: "filter (\<lambda>kv. fst kv = name_value (name r)) (data (add_record r (run_ops ops)))
       = [(name_value (name r), r)]"
    using k by (simp add: add_record_def keyed_by_name_def filter_key_dict_set)
  have d: "\<forall>n. n \<noteq> name_value (name r) \<longrightarrow>
         find_record n (add_record r (run_ops ops)) = find_record n (run_ops ops)"
    by (simp add: find_record_def add_record_def map_of_dict_set)
  from a b c d show ?thesis by blast
qed

theorem run_ops_keyed_by_name_witness:
  "data (run_ops [AddRecord (Record_init ''Ann''), AddRecord (Record_init ''Bob''),
                  Delete ''Ann'', Delete ''Zed''])
     = [(''Bob'', Record_init ''Bob'')]
   \<and> find_record ''Bob'' (add_record \<lparr>name = Name ''Bob'', phones = [PhoneObj ''0501234567''], birthday = None\<rparr>
        (run_ops [AddRecord (Record_init ''Ann''), AddRecord (Record_init ''Bob''),
                  Delete ''Ann'', Delete ''Zed'']))
     = Some \<lparr>name = Name ''Bob'', phones = [PhoneObj ''0501234567''], birthday = None\<rparr>
   \<and> ''Ann'' \<noteq> name_value (name (Record_init ''Bob''))"
proof -
  have d: "data (run_ops [AddRecord (Record_init ''Ann''), AddRecord (Record_init ''Bob''),
                  Delete ''Ann'', Delete ''Zed'']) = [(''Bob'', Record_init ''Bob'')]"
    by code_simp
  have n: "''Ann'' \<noteq> name_value (name (Record_init ''Bob''))"
    by (simp add: Record_init_def)
  from d n run_ops_keyed_by_name [of "[AddRecord (Record_init ''Ann''), AddRecord (Record_init ''Bob''),
                  Delete ''Ann'', Delete ''Zed'']"
      "\<lparr>name = Name ''Bob'', phones = [PhoneObj ''0501234567''], birthday = None\<rparr>"]
  show ?thesis by simp
qed

text \<open>
  Claim C10. When the name is not in the book and the phone is refused, \<open>add_contact\<close>
  returns the text of the validation error, and the book has gained, after its old
  entries, a record under that name with no phone and no birthday.
\<close>

theorem add_contact_keeps_record_on_error:
  assumes "find_record n book = None" and "\<forall>p. Phone_init phone \<noteq> Inr p"
  shows "fst (add_contact (n # phone # rest) book) = Inr ''Invalid phone number''
    \<and> find_record n (snd (add_contact (n # phone # rest) book))
        = Some \<lparr>name = Name n, phones = [], birthday = None\<rparr>
    \<and> data (snd (add_contact (n # phone # rest) book))
        = data book @ [(n, \<lparr>name = Name n, phones = [], birthday = None\<rparr>)]"
proof -
  from assms(2) have p: "Phone_init phone = Inl (ValueError ''Invalid phone number'')"
    by (auto simp: Phone_init_def)
  from assms(1) have k: "n \<notin> fst ` set (data book)"
    by (simp add: find_record_def map_of_eq_None_iff)
  let ?r = "\<lparr>name = Name n, phones = [], birthday = None\<rparr>"
  have e: "dict_set n ?r (data book) = data book @ [(n, ?r)]"
    by (rule dict_set_new [OF k])
  have e': "dict_set n ?r (data book @ [(n, ?r)]) = data book @ [(n, ?r)]"
    using dict_set_same [of n ?r "data book"] unfolding e .
  have "add_contact (n # phone # rest) book
      = (Inr ''Invalid phone number'', book\<lparr>data := data book @ [(n, ?r)]\<rparr>)"
    using assms(1) p
    by (simp add: add_contact_def add_contact_body_def add_phone_def input_error_def
        Record_init_def add_record_def e e' Let_def)
  then show ?thesis
    using assms(1) by (simp add: find_record_def map_add_def)
qed

theorem add_contact_keeps_record_on_error_witness:
  "find_record ''Bob'' (add_record (Record_init ''Ann'') empty_book) = None
   \<and> (\<forall>p. Phone_init ''12345'' \<noteq> Inr p)
   \<and> fst (add_contact [''Bob'', ''12345''] (add_record (Record_init ''Ann'') empty_book))
       = Inr ''Invalid phone number''
   \<and> data (snd (add_contact [''Bob'', ''12345''] (add_record (Record_init ''Ann'') empty_book)))
       = [(''Ann'', Record_init ''Ann''), (''Bob'', Record_init ''Bob'')]"
proof -
  have f: "find_record ''Bob'' (add_record (Record_init ''Ann'') empty_book) = None" by code_simp
  have p: "\<forall>p. Phone_init ''12345'' \<noteq> Inr p" by (simp add: Phone_init_def)
  have d: "data (add_record (Record_init ''Ann'') empty_book) = [(''Ann'', Record_init ''Ann'')]"
    by code_simp
  from add_contact_keeps_record_on_error [OF f p, of "[]"] f p d
  show ?thesis by (simp add: Record_init_def)
qed

subsection \<open>Upcoming birthdays\<close>




lemma birthday_loop_Inl:
  "u \<in> set us \<Longrightarrow> birthday_step now u = Inl e \<Longrightarrow> \<exists>e'. birthday_loop now us acc = Inl e'"
proof (induction us arbitrary: acc)
  case Nil
  then show ?case by simp
next
  case (Cons a us)
  then show ?case
    by (cases "birthday_step now a") (auto split: option.splits)
qed

lemma find_next_birthday_needs_birthdays:
  assumes "u \<in> set (values_of book)" and "birthday u = None"
  shows "\<exists>e. fst (find_next_birthday w now book) = Inl e"
proof -
  from assms(2) have "birthday_step now u = Inl AttributeError"
    by (simp add: birthday_step_def)
  from birthday_loop_Inl [OF assms(1) this] show ?thesis
    by (simp add: find_next_birthday_def)
qed















text \<open>
  Claim C4 fails on the code. The loop reads \<open>user.birthday.value\<close> of every record; on
  a book whose only record has no birthday the query raises \<open>AttributeError\<close>, whatever
  the date, and the command \<open>birthdays\<close> does not catch it.
\<close>

theorem find_next_birthday_without_birthday_raises:
  "fst (find_next_birthday w now (add_record (Record_init ''Ann'') empty_book))
     = Inl AttributeError
   \<and> fst (birthdays args now (add_record (Record_init ''Ann'') empty_book))
     = Inl AttributeError"
  by (simp add: find_next_birthday_def birthdays_def input_error_def values_of_def
      add_record_def empty_book_def Record_init_def birthday_step_def)



end
